theory Spec2Isabelle
  imports Complex_Main
begin

section \<open>Expense Tracker: the in-memory ledger of frontend/js/script.js\<close>

text \<open>
  The repository holds two scripts with the same function names: the documented
  \<^verbatim>\<open>frontend/js/script.js\<close> and a shorter one (\<^verbatim>\<open>unnamed/part_000\<close>).  Where the two
  differ, the definitions taken from the shorter script carry the prefix \<open>p0_\<close>; where
  the text of a function is the same in both, one definition stands for both.

  Only the data and the control flow of the scripts are modelled.  The DOM, the
  animations and the markup are left out; the calls into the JavaScript runtime that the
  scripts' results depend on (\<^verbatim>\<open>parseFloat\<close>, \<^verbatim>\<open>isNaN\<close>, \<^verbatim>\<open>Math.abs\<close>, \<^verbatim>\<open>trim\<close>,
  \<^verbatim>\<open>toLocaleString\<close>, \<^verbatim>\<open>toFixed\<close>, number arithmetic) are modelled after ECMA-262 and
  ECMA-402, the number formatter as the engines run it: from the shortest decimal of a
  double.
\<close>

subsection \<open>Strings\<close>

text \<open>
  A JavaScript string is a sequence of UTF-16 code units, and \<^verbatim>\<open>length\<close> counts code
  units.  A code unit is modelled by its number (an integer); \<open>js\<close> turns an ASCII
  literal into a string.
\<close>

type_synonym jsstring = "int list"

definition js :: "string \<Rightarrow> jsstring" where
  "js s = map of_char s"

text \<open>White space and line terminators, the characters \<^verbatim>\<open>trim\<close> and \<^verbatim>\<open>parseFloat\<close> strip.\<close>

definition isWhiteSpace :: "int \<Rightarrow> bool" where
  "isWhiteSpace c \<longleftrightarrow>
     c \<in> {9, 10, 11, 12, 13, 32, 160, 5760, 8232, 8233, 8239, 8287, 12288, 65279}
     \<or> (8192 \<le> c \<and> c \<le> 8202)"

definition trimStart :: "jsstring \<Rightarrow> jsstring" where
  "trimStart s = dropWhile isWhiteSpace s"

definition trim :: "jsstring \<Rightarrow> jsstring" where
  "trim s = rev (dropWhile isWhiteSpace (rev (dropWhile isWhiteSpace s)))"

definition isDigit :: "int \<Rightarrow> bool" where
  "isDigit c \<longleftrightarrow> 48 \<le> c \<and> c \<le> 57"

definition digitsValue :: "jsstring \<Rightarrow> int" where
  "digitsValue ds = foldl (\<lambda>v c. 10 * v + (c - 48)) 0 ds"

subsection \<open>Numbers\<close>

text \<open>
  A JavaScript number is an IEEE 754 double: not-a-number, an infinity, or a finite value,
  kept here as the rational it denotes.  The two zeros are identified: the scripts never
  divide and never print a number without \<^verbatim>\<open>Math.abs\<close> or a positivity check, so the sign
  of zero is not observable in them.  Every arithmetic result is rounded to the nearest
  double, ties to even (\<open>roundToDouble\<close>).
\<close>

datatype number = NaN | PosInf | NegInf | Fin rat

text \<open>The number of binary digits of a positive integer.\<close>

function bitlen :: "int \<Rightarrow> int" where
  "bitlen n = (if n \<le> 0 then 0 else 1 + bitlen (n div 2))"
  by pat_completeness auto
termination
  by (relation "measure nat") auto

declare bitlen.simps [simp del]

definition pow2 :: "int \<Rightarrow> rat" where
  "pow2 e = (if 0 \<le> e then 2 ^ nat e else 1 / 2 ^ nat (- e))"

definition pow10 :: "int \<Rightarrow> rat" where
  "pow10 e = (if 0 \<le> e then 10 ^ nat e else 1 / 10 ^ nat (- e))"

text \<open>\<open>ilog2 a\<close> is the \<open>k\<close> with \<open>2 ^ k \<le> a < 2 ^ (k + 1)\<close>, for a positive \<open>a\<close>.\<close>

definition ilog2 :: "rat \<Rightarrow> int" where
  "ilog2 a = (case quotient_of a of (p, q) \<Rightarrow>
     let d = bitlen p - bitlen q
     in if pow2 d \<le> a then d else d - 1)"

definition roundTiesToEven :: "rat \<Rightarrow> int" where
  "roundTiesToEven x = (let f = \<lfloor>x\<rfloor>; r = x - of_int f
     in if r < 1 / 2 then f else if 1 / 2 < r then f + 1 else if even f then f else f + 1)"

text \<open>
  Rounding to a double: a significand \<open>n\<close> of at most 53 bits at the exponent \<open>e\<close>, which
  is at least \<open>-1074\<close> (the subnormal range); a result \<open>n * 2 ^ e\<close> that reaches
  \<open>2 ^ 1024\<close> (\<open>e\<close> above 971, or \<open>n = 2 ^ 53\<close> at \<open>e = 971\<close>) is an infinity.
\<close>

definition roundToDouble :: "rat \<Rightarrow> number" where
  "roundToDouble q = (if q = 0 then Fin 0 else
     let a = \<bar>q\<bar>;
         e = max (ilog2 a - 52) (- 1074);
         n = roundTiesToEven (a / pow2 e)
     in if 971 < e \<or> (e = 971 \<and> 2 ^ 53 \<le> n) then (if 0 < q then PosInf else NegInf)
        else Fin (if 0 < q then of_int n * pow2 e else - (of_int n * pow2 e)))"

fun negate :: "number \<Rightarrow> number" where
  "negate NaN = NaN"
| "negate PosInf = NegInf"
| "negate NegInf = PosInf"
| "negate (Fin q) = Fin (- q)"

instantiation number :: "{zero, plus, minus, ord}"
begin

definition zero_number :: number where
  "zero_number = Fin 0"

fun plus_number :: "number \<Rightarrow> number \<Rightarrow> number" where
  "plus_number NaN y = NaN"
| "plus_number x NaN = NaN"
| "plus_number PosInf NegInf = NaN"
| "plus_number NegInf PosInf = NaN"
| "plus_number PosInf y = PosInf"
| "plus_number NegInf y = NegInf"
| "plus_number x PosInf = PosInf"
| "plus_number x NegInf = NegInf"
| "plus_number (Fin a) (Fin b) = roundToDouble (a + b)"

definition minus_number :: "number \<Rightarrow> number \<Rightarrow> number" where
  "minus_number x y = x + negate y"

text \<open>Comparisons with not-a-number are false.\<close>

fun less_number :: "number \<Rightarrow> number \<Rightarrow> bool" where
  "less_number NaN y = False"
| "less_number x NaN = False"
| "less_number x NegInf = False"
| "less_number PosInf y = False"
| "less_number NegInf y = True"
| "less_number x PosInf = True"
| "less_number (Fin a) (Fin b) = (a < b)"

fun less_eq_number :: "number \<Rightarrow> number \<Rightarrow> bool" where
  "less_eq_number NaN y = False"
| "less_eq_number x NaN = False"
| "less_eq_number NegInf y = True"
| "less_eq_number x PosInf = True"
| "less_eq_number x NegInf = False"
| "less_eq_number PosInf y = False"
| "less_eq_number (Fin a) (Fin b) = (a \<le> b)"

instance ..

end

definition isNaN :: "number \<Rightarrow> bool" where
  "isNaN x \<longleftrightarrow> x = NaN"

fun Math_abs :: "number \<Rightarrow> number" where
  "Math_abs NaN = NaN"
| "Math_abs PosInf = PosInf"
| "Math_abs NegInf = PosInf"
| "Math_abs (Fin q) = Fin \<bar>q\<bar>"

text \<open>
  \<^verbatim>\<open>parseFloat\<close> (ECMA-262, 19.2.4): leading white space is skipped, the longest prefix that
  is a decimal literal (sign, digits, fraction, exponent, or \<^verbatim>\<open>Infinity\<close>) is read and the
  rest is ignored; without such a prefix the result is not-a-number.
\<close>

fun exponentPart :: "jsstring \<Rightarrow> int" where
  "exponentPart [] = 0"
| "exponentPart (c # r) =
     (if c = 101 \<or> c = 69 then
        (if take 1 r = js ''-'' then - digitsValue (takeWhile isDigit (drop 1 r))
         else if take 1 r = js ''+'' then digitsValue (takeWhile isDigit (drop 1 r))
         else digitsValue (takeWhile isDigit r))
      else 0)"

definition unsignedLiteral :: "bool \<Rightarrow> jsstring \<Rightarrow> number" where
  "unsignedLiteral negative unsigned =
     (if take 8 unsigned = js ''Infinity'' then (if negative then NegInf else PosInf)
      else
        let intDigits = takeWhile isDigit unsigned;
            afterInt = dropWhile isDigit unsigned;
            hasPoint = (take 1 afterInt = js ''.'');
            fracDigits = (if hasPoint then takeWhile isDigit (drop 1 afterInt) else []);
            afterFrac = (if hasPoint then dropWhile isDigit (drop 1 afterInt) else afterInt)
        in if intDigits = [] \<and> fracDigits = [] then NaN
           else
             let mv = of_int (digitsValue (intDigits @ fracDigits))
                        * pow10 (exponentPart afterFrac - int (length fracDigits))
             in roundToDouble (if negative then - mv else mv))"

definition parseFloat :: "jsstring \<Rightarrow> number" where
  "parseFloat inputString =
     (let trimmedString = trimStart inputString
      in if take 1 trimmedString = js ''-'' then unsignedLiteral True (drop 1 trimmedString)
         else if take 1 trimmedString = js ''+'' then unsignedLiteral False (drop 1 trimmedString)
         else unsignedLiteral False trimmedString)"

subsection \<open>The data store (script.js, section B)\<close>

text \<open>
  The \<^verbatim>\<open>type\<close> of a transaction is one of the two strings \<^verbatim>\<open>'income'\<close> and \<^verbatim>\<open>'expense'\<close>
  (the schema in the header of section B and in \<^verbatim>\<open>backend/models/transaction.js\<close>; the
  value of the two-option select \<^verbatim>\<open>#txType\<close>): an enumeration.  The scripts test it with
  \<^verbatim>\<open>tx.type === 'income'\<close> and take the other branch for \<^verbatim>\<open>'expense'\<close>.
\<close>

datatype tx_type = Income | Expense

text \<open>
  The five fields both scripts store, and the \<^verbatim>\<open>createdAt\<close> stamp only script.js adds.
  Ids count up from 1 and stay far below \<open>2 ^ 53\<close>, where the increment of a double is
  exact: they are natural numbers.
\<close>

record entry =
  tx_id :: nat
  description :: jsstring
  amount :: number
  type :: tx_type
  date :: jsstring

record transaction = entry +
  createdAt :: jsstring

text \<open>\<^verbatim>\<open>let transactions = []; let _nextId = 1;\<close>\<close>

record 't store =
  transactions :: "'t list"
  nextId :: nat

definition initial :: "'t store" where
  "initial = \<lparr>transactions = [], nextId = 1\<rparr>"

text \<open>The object \<^verbatim>\<open>readFormValues\<close> returns: \<^verbatim>\<open>amount\<close> is still a string.\<close>

record formData =
  data_description :: jsstring
  data_amount :: jsstring
  data_type :: tx_type
  data_date :: jsstring

text \<open>What a JavaScript function hands back when it has no \<^verbatim>\<open>return\<close> statement, or a boolean.\<close>

datatype jsvalue = Undefined | Boolean bool

text \<open>
  \<^verbatim>\<open>addTransaction(data)\<close>; the clock reading \<^verbatim>\<open>new Date().toISOString()\<close> is the
  argument \<open>now\<close>.  The result is the created record and the store after the push.
\<close>

definition addTransaction :: "formData \<Rightarrow> jsstring \<Rightarrow> transaction store \<Rightarrow> transaction \<times> transaction store" where
  "addTransaction data now s =
     (let tx = \<lparr>tx_id = nextId s,
                description = data_description data,
                amount = parseFloat (data_amount data),
                type = data_type data,
                date = data_date data,
                createdAt = now\<rparr>
      in (tx, s\<lparr>transactions := transactions s @ [tx], nextId := nextId s + 1\<rparr>))"

text \<open>\<^verbatim>\<open>removeTransaction(id)\<close>: the array is replaced by the filtered one; nothing is returned.\<close>

definition removeTransaction :: "nat \<Rightarrow> transaction store \<Rightarrow> jsvalue \<times> transaction store" where
  "removeTransaction i s =
     (Undefined, s\<lparr>transactions := filter (\<lambda>tx. tx_id tx \<noteq> i) (transactions s)\<rparr>)"

subsection \<open>Summary cards (script.js, section I; part_000, section G)\<close>

text \<open>
  \<^verbatim>\<open>updateSummary\<close> is the same loop in both scripts: one pass with two running totals, then
  the difference.  The three numbers are what it hands to the cards.
\<close>

record summary =
  income :: number
  expense :: number
  balance :: number

definition tally :: "number \<times> number \<Rightarrow> 'a entry_scheme \<Rightarrow> number \<times> number" where
  "tally totals tx = (case totals of (totalIncome, totalExpense) \<Rightarrow>
     if type tx = Income then (totalIncome + amount tx, totalExpense)
     else (totalIncome, totalExpense + amount tx))"

definition updateSummary :: "'a entry_scheme list \<Rightarrow> summary" where
  "updateSummary txs = (case foldl tally (0, 0) txs of (totalIncome, totalExpense) \<Rightarrow>
     let netBalance = totalIncome - totalExpense
     in \<lparr>income = totalIncome, expense = totalExpense, balance = netBalance\<rparr>)"

text \<open>
  The sum of a list of amounts, as floating-point addition gives it: from 0, left to right.
\<close>

definition sumAmounts :: "number list \<Rightarrow> number" where
  "sumAmounts xs = foldl (+) 0 xs"

definition amountsOf :: "tx_type \<Rightarrow> 'a entry_scheme list \<Rightarrow> number list" where
  "amountsOf k txs = map amount (filter (\<lambda>tx. type tx = k) txs)"

subsection \<open>Sequences of store operations\<close>

text \<open>
  The store changes only through \<^verbatim>\<open>addTransaction\<close> and \<^verbatim>\<open>removeTransaction\<close>.  A history
  is a list of such calls, run from a given store; \<open>assigned\<close> lists the ids the adds of a
  history handed out, in order.
\<close>

datatype operation = Add formData jsstring | Remove nat

fun apply_operation :: "operation \<Rightarrow> transaction store \<Rightarrow> transaction store" where
  "apply_operation (Add data now) s = snd (addTransaction data now s)"
| "apply_operation (Remove i) s = snd (removeTransaction i s)"

fun run :: "operation list \<Rightarrow> transaction store \<Rightarrow> transaction store" where
  "run [] s = s"
| "run (op # ops) s = run ops (apply_operation op s)"

fun assigned :: "operation list \<Rightarrow> transaction store \<Rightarrow> nat list" where
  "assigned [] s = []"
| "assigned (Add data now # ops) s =
     tx_id (fst (addTransaction data now s)) # assigned ops (snd (addTransaction data now s))"
| "assigned (Remove i # ops) s = assigned ops (snd (removeTransaction i s))"

definition ids :: "('a entry_scheme) store \<Rightarrow> nat list" where
  "ids s = map tx_id (transactions s)"

subsection \<open>Validation (script.js, section G; part_000, section E)\<close>

text \<open>The values of the four form fields, as \<^verbatim>\<open>.val()\<close> reads them.\<close>

record form =
  txDescription :: jsstring
  txAmount :: jsstring
  txType :: tx_type
  txDate :: jsstring

definition readFormValues :: "form \<Rightarrow> formData" where
  "readFormValues f =
     \<lparr>data_description = trim (txDescription f),
      data_amount = txAmount f,
      data_type = txType f,
      data_date = txDate f\<rparr>"

text \<open>\<^verbatim>\<open>CONFIG.maxDescLen\<close>\<close>

definition maxDescLen :: nat where
  "maxDescLen = 100"

text \<open>
  The inputs \<^verbatim>\<open>markInvalid\<close> can mark.  \<^verbatim>\<open>validateInputs\<close> returns its boolean; the second
  component of the result lists the fields it marked \<^verbatim>\<open>is-invalid\<close>, in the order of the
  calls (the marks of an earlier run are cleared first).
\<close>

datatype field = DescriptionField | AmountField | DateField

definition validateInputs :: "formData \<Rightarrow> bool \<times> field list" where
  "validateInputs data =
     (let (valid1, marks1) =
            (if data_description data = [] \<or> length (data_description data) < 1
             then (False, [DescriptionField])
             else if length (data_description data) > maxDescLen
             then (False, [DescriptionField])
             else (True, []));
          amt = parseFloat (data_amount data);
          (valid2, marks2) =
            (if data_amount data = [] \<or> isNaN amt \<or> amt \<le> 0
             then (False, marks1 @ [AmountField])
             else (valid1, marks1));
          (valid3, marks3) =
            (if data_date data = []
             then (False, marks2 @ [DateField])
             else (valid2, marks2))
      in (valid3, marks3))"

text \<open>The shorter script validates the trimmed description, the parsed amount and the date.\<close>

definition p0_validateInputs :: "jsstring \<Rightarrow> number \<Rightarrow> jsstring \<Rightarrow> bool \<times> field list" where
  "p0_validateInputs descr amt dat =
     (let (isValid1, marks1) = (if descr = [] then (False, [DescriptionField]) else (True, []));
          (isValid2, marks2) =
            (if isNaN amt \<or> amt \<le> 0 then (False, marks1 @ [AmountField]) else (isValid1, marks1));
          (isValid3, marks3) =
            (if dat = [] then (False, marks2 @ [DateField]) else (isValid2, marks2))
      in (isValid3, marks3))"

subsection \<open>Form handlers (script.js, section F; part_000, section D)\<close>

text \<open>
  \<^verbatim>\<open>handleFormSubmit\<close>: read, validate, and either leave early or add.  The table and the
  cards are rebuilt from the store afterwards (\<open>renderTable\<close>, \<open>updateSummary\<close>).
\<close>

definition handleFormSubmit :: "form \<Rightarrow> jsstring \<Rightarrow> transaction store \<Rightarrow> transaction store" where
  "handleFormSubmit f now s =
     (let formData = readFormValues f
      in if \<not> fst (validateInputs formData) then s
         else snd (addTransaction formData now s))"

definition p0_handleFormSubmit :: "form \<Rightarrow> entry store \<Rightarrow> entry store" where
  "p0_handleFormSubmit f s =
     (let descr = trim (txDescription f);
          amt = parseFloat (txAmount f);
          typ = txType f;
          dat = txDate f
      in if \<not> fst (p0_validateInputs descr amt dat) then s
         else s\<lparr>transactions := transactions s @
                  [\<lparr>tx_id = nextId s, description = descr, amount = amt, type = typ, date = dat\<rparr>],
                nextId := nextId s + 1\<rparr>)"

text \<open>
  \<^verbatim>\<open>handleDelete\<close>, with the id read from the clicked button: script.js calls
  \<^verbatim>\<open>removeTransaction\<close> when the row has faded out, the shorter script filters in place.
\<close>

definition handleDelete :: "nat \<Rightarrow> transaction store \<Rightarrow> transaction store" where
  "handleDelete idToRemove s = snd (removeTransaction idToRemove s)"

definition p0_handleDelete :: "nat \<Rightarrow> entry store \<Rightarrow> entry store" where
  "p0_handleDelete idToRemove s =
     s\<lparr>transactions := filter (\<lambda>tx. tx_id tx \<noteq> idToRemove) (transactions s)\<rparr>"

subsection \<open>Currency text (script.js, section K; part_000, sections F and H)\<close>

function decimalDigits :: "int \<Rightarrow> jsstring" where
  "decimalDigits n = (if n < 10 then [48 + n] else decimalDigits (n div 10) @ [48 + n mod 10])"
  by pat_completeness auto
termination
  by (relation "measure nat") auto

declare decimalDigits.simps [simp del]

text \<open>A comma after every third digit, counted from the right.\<close>

fun groupReversed :: "jsstring \<Rightarrow> jsstring" where
  "groupReversed (a # b # c # d # r) = a # b # c # 44 # groupReversed (d # r)"
| "groupReversed r = r"

definition groupThousands :: "jsstring \<Rightarrow> jsstring" where
  "groupThousands ds = rev (groupReversed (rev ds))"

text \<open>
  The shortest decimal that reads back as a given positive double (ECMA-262,
  \<^verbatim>\<open>Number::toString\<close>): the least number \<open>k\<close> of significant digits for which a decimal
  rounds to the double, and among the decimals of that length the one closest to it, the
  even one at a tie.  At most 17 digits are needed.  \<open>ilog10 a\<close> is the \<open>n\<close> with
  \<open>10 ^ n \<le> a < 10 ^ (n + 1)\<close>.
\<close>

function declen :: "int \<Rightarrow> int" where
  "declen n = (if n \<le> 0 then 0 else 1 + declen (n div 10))"
  by pat_completeness auto
termination
  by (relation "measure nat") auto

declare declen.simps [simp del]

definition ilog10 :: "rat \<Rightarrow> int" where
  "ilog10 a = (case quotient_of a of (p, q) \<Rightarrow>
     let d = declen p - declen q
     in if pow10 d \<le> a then d else d - 1)"

fun shortestSearch :: "nat \<Rightarrow> int \<Rightarrow> int \<Rightarrow> rat \<Rightarrow> rat" where
  "shortestSearch 0 k n x = x"
| "shortestSearch (Suc fuel) k n x =
     (let u = pow10 (n + 1 - k);
          s = \<lfloor>x / u\<rfloor>;
          lo = of_int s * u;
          hi = of_int (s + 1) * u;
          okLo = (roundToDouble lo = Fin x);
          okHi = (roundToDouble hi = Fin x)
      in if okLo \<and> okHi then
           (if x - lo < hi - x then lo else if hi - x < x - lo then hi
            else if even s then lo else hi)
         else if okLo then lo
         else if okHi then hi
         else shortestSearch fuel (k + 1) n x)"

definition shortestDecimal :: "rat \<Rightarrow> rat" where
  "shortestDecimal x = (if x = 0 then 0 else shortestSearch 17 1 (ilog10 x) x)"

text \<open>
  A non-negative decimal with exactly two fraction digits: the nearest number of
  hundredths, a tie going up (ECMA-262 \<^verbatim>\<open>toFixed\<close>, step 8; ECMA-402 rounding mode
  half-expand).
\<close>

definition hundredths :: "rat \<Rightarrow> int" where
  "hundredths x = \<lfloor>100 * x + 1 / 2\<rfloor>"

definition twoFractionDigits :: "bool \<Rightarrow> rat \<Rightarrow> jsstring" where
  "twoFractionDigits grouping x =
     (let n = hundredths x;
          whole = decimalDigits (n div 100)
      in (if grouping then groupThousands whole else whole)
           @ js ''.'' @ [48 + n mod 100 div 10, 48 + n mod 10])"

text \<open>
  \<^verbatim>\<open>toLocaleString('en-US', {minimumFractionDigits: 2, maximumFractionDigits: 2})\<close>: the
  number formatter starts from the shortest decimal of the double, not from its exact
  binary value, and rounds that to two fraction digits, so 1.005 prints as 1.01 and
  \<open>2 ^ 60\<close> as 1,152,921,504,606,847,000.00.  8734 is the infinity sign.
\<close>

fun toLocaleString :: "number \<Rightarrow> jsstring" where
  "toLocaleString NaN = js ''NaN''"
| "toLocaleString PosInf = [8734]"
| "toLocaleString NegInf = js ''-'' @ [8734]"
| "toLocaleString (Fin q) =
     (if q < 0 then js ''-'' else []) @ twoFractionDigits True (shortestDecimal \<bar>q\<bar>)"

text \<open>
  The exponent notation of \<^verbatim>\<open>Number::toString\<close> for a value of more than 21 integer
  digits: the significant digits of the shortest decimal, a point after the first when
  there are more, and the decimal exponent.
\<close>

definition exponentNotation :: "rat \<Rightarrow> jsstring" where
  "exponentNotation x =
     (let ds = decimalDigits \<lfloor>shortestDecimal x\<rfloor>;
          significant = rev (dropWhile (\<lambda>c. c = 48) (rev ds))
      in (if length significant = 1 then significant
          else take 1 significant @ js ''.'' @ drop 1 significant)
           @ js ''e+'' @ decimalDigits (int (length ds) - 1))"

text \<open>
  \<^verbatim>\<open>toFixed(2)\<close> rounds the exact value of the double; from \<open>10 ^ 21\<close> on it gives what
  \<^verbatim>\<open>Number::toString\<close> gives.
\<close>

fun toFixed2 :: "number \<Rightarrow> jsstring" where
  "toFixed2 NaN = js ''NaN''"
| "toFixed2 PosInf = js ''Infinity''"
| "toFixed2 NegInf = js ''-Infinity''"
| "toFixed2 (Fin q) =
     (if q < 0 then js ''-'' else []) @
     (if 10 ^ 21 \<le> \<bar>q\<bar> then exponentNotation \<bar>q\<bar> else twoFractionDigits False \<bar>q\<bar>)"

definition formatCurrency :: "number \<Rightarrow> jsstring" where
  "formatCurrency val =
     (let sign = (if val < 0 then js ''-'' else []);
          absolute = Math_abs val;
          formatted = toLocaleString absolute
      in sign @ js ''$'' @ formatted)"

definition p0_formatCurrency :: "number \<Rightarrow> jsstring" where
  "p0_formatCurrency val =
     (let prefix = (if val < 0 then js ''-$'' else js ''$'')
      in prefix @ toLocaleString (Math_abs val))"

subsection \<open>Table rendering (script.js, section H; part_000, section F)\<close>

text \<open>
  A table row, without its markup: the serial number of the first cell, the record the row
  shows (its id is the \<^verbatim>\<open>data-id\<close> of the delete button), and the text of the amount cell.
  The body of the table is a list of rows, or the single placeholder row.
\<close>

record ('t, 'a) row =
  serial :: nat
  shown :: 't
  amountCell :: 'a

datatype 'r tr = EmptyRow | Row 'r

definition buildRow :: "transaction \<Rightarrow> nat \<Rightarrow> (transaction, jsstring) row" where
  "buildRow tx n = \<lparr>serial = n, shown = tx, amountCell = formatCurrency (amount tx)\<rparr>"

definition p0_buildRow :: "entry \<Rightarrow> nat \<Rightarrow> (entry, jsstring) row" where
  "p0_buildRow tx n = \<lparr>serial = n, shown = tx, amountCell = js ''$'' @ toFixed2 (amount tx)\<rparr>"

definition renderTable :: "transaction list \<Rightarrow> (transaction, jsstring) row tr list" where
  "renderTable txs =
     (if length txs = 0 then [EmptyRow]
      else let displayList = rev txs
           in map (\<lambda>(index, tx). Row (buildRow tx (index + 1))) (enumerate 0 displayList))"

definition p0_renderTable :: "entry list \<Rightarrow> (entry, jsstring) row tr list" where
  "p0_renderTable txs =
     (if length txs = 0 then [EmptyRow]
      else map (\<lambda>(i, tx). Row (p0_buildRow tx (i + 1))) (enumerate 0 (rev txs)))"

text \<open>The rows of a table body, the placeholder left out.\<close>

fun rowsOf :: "'r tr list \<Rightarrow> 'r list" where
  "rowsOf [] = []"
| "rowsOf (EmptyRow # trs) = rowsOf trs"
| "rowsOf (Row r # trs) = r # rowsOf trs"

text \<open>The texts the three summary cards show (\<^verbatim>\<open>animateCardValue\<close>).\<close>

definition cardTexts :: "summary \<Rightarrow> jsstring \<times> jsstring \<times> jsstring" where
  "cardTexts sm = (formatCurrency (income sm), formatCurrency (expense sm), formatCurrency (balance sm))"

subsection \<open>Notions the properties are stated with\<close>

text \<open>
  The summary of a list with one more record, as the specification puts it: the summary
  of the list combined with the contribution of the record, which goes to exactly one of
  the two totals; the balance is the difference of the new totals.
\<close>

definition addContribution :: "summary \<Rightarrow> 'a entry_scheme \<Rightarrow> summary" where
  "addContribution sm x =
     (let i = (if type x = Income then income sm + amount x else income sm);
          e = (if type x = Expense then expense sm + amount x else expense sm)
      in \<lparr>income = i, expense = e, balance = i - e\<rparr>)"

text \<open>The invariant of the store: the ids are distinct and all below the counter.\<close>

definition store_inv :: "('a entry_scheme) store \<Rightarrow> bool" where
  "store_inv s \<longleftrightarrow> distinct (ids s) \<and> (\<forall>i\<in>set (ids s). i < nextId s)"

text \<open>The two submissions of the end-to-end scenario of the specification, and a clock reading.\<close>

definition salary :: formData where
  "salary = \<lparr>data_description = js ''Salary'', data_amount = js ''1000'',
             data_type = Income, data_date = js ''2026-01-01''\<rparr>"

definition rent :: formData where
  "rent = \<lparr>data_description = js ''Rent'', data_amount = js ''300'',
           data_type = Expense, data_date = js ''2026-01-02''\<rparr>"

definition noon :: jsstring where
  "noon = js ''2026-01-02T12:00:00.000Z''"

text \<open>Two inputs no validation has seen.\<close>

definition input12abc :: formData where
  "input12abc = \<lparr>data_description = [], data_amount = js ''12abc'', data_type = Income, data_date = []\<rparr>"

definition inputAbc :: formData where
  "inputAbc = \<lparr>data_description = [], data_amount = js ''abc'', data_type = Income, data_date = []\<rparr>"

text \<open>
  The validation rules in the words of the specification (section 4.3), on a submitted
  form: the description fails if it is empty after trimming or longer than 100 characters,
  the amount if it does not parse as a number or its parsed value is at most 0, the date
  if it is empty.  A form is invalid when one or more of its fields fail.
\<close>

definition failsRules :: "form \<Rightarrow> bool" where
  "failsRules f \<longleftrightarrow>
     trim (txDescription f) = [] \<or> 100 < length (trim (txDescription f))
     \<or> isNaN (parseFloat (txAmount f)) \<or> parseFloat (txAmount f) \<le> 0
     \<or> txDate f = []"

text \<open>
  Forms: one with a description of 101 letters, one with the amount 1234.5, and the form
  with given description, amount and date.
\<close>

definition longForm :: form where
  "longForm = \<lparr>txDescription = replicate 101 97, txAmount = js ''5'', txType = Expense,
                txDate = js ''2026-01-01''\<rparr>"

definition payForm :: form where
  "payForm = \<lparr>txDescription = js ''Salary'', txAmount = js ''1234.5'', txType = Income,
               txDate = js ''2026-01-01''\<rparr>"

definition formWith :: "jsstring \<Rightarrow> jsstring \<Rightarrow> jsstring \<Rightarrow> form" where
  "formWith d a dt = \<lparr>txDescription = d, txAmount = a, txType = Income, txDate = dt\<rparr>"

section \<open>Properties\<close>

subsection \<open>Numbers\<close>

text \<open>
  The rounding at work: the double nearest to one tenth; 0.1 + 0.2, which is not 0.3; the
  first integer the next one cannot follow; infinity minus infinity.
\<close>

lemma double_examples:
  "roundToDouble (1 / 10) = Fin (3602879701896397 / 2 ^ 55)"
  "parseFloat (js ''0.1'') + parseFloat (js ''0.2'') = Fin (1351079888211149 / 2 ^ 52)"
  "parseFloat (js ''0.1'') + parseFloat (js ''0.2'') \<noteq> parseFloat (js ''0.3'')"
  "Fin (2 ^ 53) + Fin 1 = Fin (2 ^ 53)"
  "PosInf - PosInf = NaN"
  by code_simp+

subsection \<open>Summary\<close>

lemma foldl_tally:
  "foldl tally (i, e) txs =
     (foldl (+) i (amountsOf Income txs), foldl (+) e (amountsOf Expense txs))"
proof (induction txs arbitrary: i e)
  case Nil
  show ?case by (simp add: amountsOf_def)
next
  case (Cons tx txs)
  show ?case
  proof (cases "type tx")
    case Income
    then show ?thesis using Cons.IH [of "i + amount tx" e]
      by (simp add: tally_def amountsOf_def)
  next
    case Expense
    then show ?thesis using Cons.IH [of i "e + amount tx"]
      by (simp add: tally_def amountsOf_def)
  qed
qed

lemma zero_minus_zero: "(0::number) - 0 = 0"
  by (simp add: zero_number_def minus_number_def roundToDouble_def)

text \<open>
  C1.  For every list of transactions the single pass of \<^verbatim>\<open>updateSummary\<close> yields as income
  the sum of the amounts of the records of type income, as expense the sum of the amounts
  of the records of type expense, and as balance income minus expense; for the empty list
  all three are 0.
\<close>

theorem updateSummary_sums:
  "income (updateSummary txs) = sumAmounts (amountsOf Income txs)
   \<and> expense (updateSummary txs) = sumAmounts (amountsOf Expense txs)
   \<and> balance (updateSummary txs) = income (updateSummary txs) - expense (updateSummary txs)
   \<and> updateSummary [] = \<lparr>income = 0, expense = 0, balance = 0\<rparr>"
  by (simp add: updateSummary_def foldl_tally sumAmounts_def zero_minus_zero)

text \<open>
  C8.  The summary is additive: for every list of records \<open>A\<close> and every record \<open>x\<close>, the
  summary of \<open>A\<close> with \<open>x\<close> added (appended, as \<^verbatim>\<open>addTransaction\<close> does) is the summary of
  \<open>A\<close> combined with the contribution of \<open>x\<close>: the amount of \<open>x\<close> is added to the income
  total when \<open>x\<close> is an income and to the expense total otherwise, the other total is
  unchanged, and the balance is the difference of the new totals.
\<close>

theorem updateSummary_additive:
  "updateSummary (A @ [x]) = addContribution (updateSummary A) x"
  by (cases "type x")
     (simp_all add: updateSummary_def foldl_tally amountsOf_def addContribution_def tally_def Let_def)

subsection \<open>Ids\<close>

lemma store_inv_initial: "store_inv initial"
  by (simp add: store_inv_def initial_def ids_def)

lemma ids_add: "ids (snd (addTransaction data now s)) = ids s @ [nextId s]"
  by (simp add: addTransaction_def ids_def Let_def)

lemma nextId_add: "nextId (snd (addTransaction data now s)) = Suc (nextId s)"
  by (simp add: addTransaction_def Let_def)

lemma id_add: "tx_id (fst (addTransaction data now s)) = nextId s"
  by (simp add: addTransaction_def Let_def)

lemma ids_remove: "ids (snd (removeTransaction i s)) = filter (\<lambda>j. j \<noteq> i) (ids s)"
  by (simp add: removeTransaction_def ids_def filter_map comp_def)

lemma nextId_remove: "nextId (snd (removeTransaction i s)) = nextId s"
  by (simp add: removeTransaction_def)

lemma store_inv_step: "store_inv s \<Longrightarrow> store_inv (apply_operation op s)"
proof (cases op)
  case (Add data now)
  assume "store_inv s"
  then show ?thesis using Add
    by (auto simp: store_inv_def ids_add nextId_add)
next
  case (Remove i)
  assume "store_inv s"
  then show ?thesis using Remove
    by (auto simp: store_inv_def ids_remove nextId_remove)
qed

lemma store_inv_run: "store_inv s \<Longrightarrow> store_inv (run ops s)"
  by (induction ops arbitrary: s) (simp_all add: store_inv_step)

lemma nextId_step: "nextId s \<le> nextId (apply_operation op s)"
  by (cases op) (simp_all add: nextId_add nextId_remove)

lemma nextId_run: "nextId s \<le> nextId (run ops s)"
proof (induction ops arbitrary: s)
  case Nil
  show ?case by simp
next
  case (Cons op ops)
  have "nextId s \<le> nextId (apply_operation op s)" by (rule nextId_step)
  also have "\<dots> \<le> nextId (run ops (apply_operation op s))" by (rule Cons.IH)
  finally show ?case by simp
qed

text \<open>Every id a history hands out lies between the counter before and the counter after.\<close>

lemma assigned_bounds:
  "\<forall>j\<in>set (assigned ops s). nextId s \<le> j \<and> j < nextId (run ops s)"
proof (induction ops arbitrary: s)
  case Nil
  show ?case by simp
next
  case (Cons op ops)
  show ?case
  proof (cases op)
    case (Add data now)
    let ?s' = "snd (addTransaction data now s)"
    have "nextId s < nextId (run ops ?s')"
      using nextId_run [of ?s' ops] by (simp add: nextId_add)
    moreover have "\<forall>j\<in>set (assigned ops ?s'). nextId s \<le> j \<and> j < nextId (run ops ?s')"
      using Cons.IH [of ?s'] by (auto simp: nextId_add)
    ultimately show ?thesis using Add by (simp add: id_add)
  next
    case (Remove i)
    then show ?thesis using Cons.IH [of "snd (removeTransaction i s)"]
      by (simp add: nextId_remove)
  qed
qed

lemma assigned_sorted: "sorted_wrt (<) (assigned ops s)"
proof (induction ops arbitrary: s)
  case Nil
  show ?case by simp
next
  case (Cons op ops)
  show ?case
  proof (cases op)
    case (Add data now)
    have "\<forall>j\<in>set (assigned ops (snd (addTransaction data now s))). nextId s < j"
      using assigned_bounds [of ops "snd (addTransaction data now s)"]
      by (auto simp: nextId_add)
    then show ?thesis using Add Cons.IH by (simp add: id_add)
  next
    case (Remove i)
    then show ?thesis using Cons.IH by simp
  qed
qed

lemma ids_run_subset: "set (ids (run ops s)) \<subseteq> set (ids s) \<union> set (assigned ops s)"
proof (induction ops arbitrary: s)
  case Nil
  show ?case by simp
next
  case (Cons op ops)
  show ?case
  proof (cases op)
    case (Add data now)
    then show ?thesis using Cons.IH [of "snd (addTransaction data now s)"]
      by (auto simp: ids_add id_add)
  next
    case (Remove i)
    then show ?thesis using Cons.IH [of "snd (removeTransaction i s)"]
      by (auto simp: ids_remove)
  qed
qed

text \<open>
  C2.  Ids are unique and monotonically assigned over the lifetime of the store, and never
  reused, even after a deletion.  After every history of adds and removes from the initial
  store: the ids in the store are distinct; the ids handed out so far are strictly
  increasing in the order of their assignment, hence no id was handed out twice, a
  deleted one included; every id in the store is one of them; the next add assigns an id
  strictly greater than every id handed out before and makes the store one record longer.
\<close>

theorem ids_unique_monotonic:
  "distinct (ids (run ops initial))
   \<and> sorted_wrt (<) (assigned ops initial)
   \<and> distinct (assigned ops initial)
   \<and> set (ids (run ops initial)) \<subseteq> set (assigned ops initial)
   \<and> (\<forall>j\<in>set (assigned ops initial). j < tx_id (fst (addTransaction data now (run ops initial))))
   \<and> length (transactions (snd (addTransaction data now (run ops initial))))
       = length (transactions (run ops initial)) + 1"
proof -
  have "store_inv (run ops initial)"
    by (rule store_inv_run) (rule store_inv_initial)
  then have "distinct (ids (run ops initial))"
    by (simp add: store_inv_def)
  moreover have sorted: "sorted_wrt (<) (assigned ops initial)"
    by (rule assigned_sorted)
  moreover have "distinct (assigned ops initial)"
    using sorted by (simp add: strict_sorted_iff)
  moreover have "set (ids (run ops initial)) \<subseteq> set (assigned ops initial)"
    using ids_run_subset [of ops initial] by (simp add: initial_def ids_def)
  moreover have "\<forall>j\<in>set (assigned ops initial). j < tx_id (fst (addTransaction data now (run ops initial)))"
    using assigned_bounds [of ops initial] by (simp add: id_add)
  moreover have "length (transactions (snd (addTransaction data now (run ops initial))))
       = length (transactions (run ops initial)) + 1"
    by (simp add: addTransaction_def Let_def)
  ultimately show ?thesis by blast
qed

text \<open>
  The history add, add, remove 1: the ids 1 and 2 were handed out, 2 is left in the store,
  and the next add gets 3, not the deleted 1.
\<close>

theorem ids_unique_monotonic_witness:
  "ids (run [Add salary noon, Add rent noon, Remove 1] initial) = [2]
   \<and> assigned [Add salary noon, Add rent noon, Remove 1] initial = [1, 2]
   \<and> tx_id (fst (addTransaction salary noon
        (run [Add salary noon, Add rent noon, Remove 1] initial))) = 3
   \<and> length (transactions (snd (addTransaction salary noon
        (run [Add salary noon, Add rent noon, Remove 1] initial)))) = 2"
  using ids_unique_monotonic [of "[Add salary noon, Add rent noon, Remove 1]" salary noon]
  by (simp add: initial_def ids_def addTransaction_def removeTransaction_def Let_def)

subsection \<open>Removal\<close>

lemma filter_distinct_length:
  "distinct (map f xs) \<Longrightarrow> i \<in> set (map f xs)
     \<Longrightarrow> length (filter (\<lambda>x. f x \<noteq> i) xs) + 1 = length xs"
proof (induction xs)
  case Nil
  then show ?case by simp
next
  case (Cons x xs)
  show ?case
  proof (cases "f x = i")
    case True
    then have "i \<notin> set (map f xs)" using Cons.prems(1) by auto
    then have "filter (\<lambda>x. f x \<noteq> i) xs = xs"
      by (auto simp: filter_id_conv)
    then show ?thesis using True by simp
  next
    case False
    then show ?thesis using Cons by auto
  qed
qed

text \<open>An id below the counter that is not in the store stays out of it.\<close>

lemma absent_step:
  "i \<notin> set (ids s) \<Longrightarrow> i < nextId s
     \<Longrightarrow> i \<notin> set (ids (apply_operation op s)) \<and> i < nextId (apply_operation op s)"
  by (cases op) (auto simp: ids_add nextId_add ids_remove nextId_remove)

lemma absent_run:
  "i \<notin> set (ids s) \<Longrightarrow> i < nextId s \<Longrightarrow> i \<notin> set (ids (run ops s))"
proof (induction ops arbitrary: s)
  case Nil
  then show ?case by simp
next
  case (Cons op ops)
  then show ?case using absent_step [of i s op] by simp
qed

text \<open>
  C7.  In every store a history from the initial store leads to, and for every id present
  in it, \<^verbatim>\<open>removeTransaction(id)\<close> makes the store exactly one record shorter, and
  whatever adds and removes follow, that id is never in the list again.
\<close>

theorem remove_existing:
  assumes "i \<in> set (ids (run ops initial))"
  shows "length (transactions (snd (removeTransaction i (run ops initial)))) + 1
           = length (transactions (run ops initial))
         \<and> i \<notin> set (ids (run later (snd (removeTransaction i (run ops initial)))))"
proof -
  let ?s = "run ops initial"
  have inv: "store_inv ?s"
    by (rule store_inv_run) (rule store_inv_initial)
  have "length (filter (\<lambda>tx. tx_id tx \<noteq> i) (transactions ?s)) + 1 = length (transactions ?s)"
    using inv assms filter_distinct_length [of tx_id "transactions ?s" i]
    by (simp add: store_inv_def ids_def)
  then have len: "length (transactions (snd (removeTransaction i ?s))) + 1 = length (transactions ?s)"
    by (simp add: removeTransaction_def)
  have "i < nextId ?s"
    using inv assms by (simp add: store_inv_def)
  then have "i \<notin> set (ids (run later (snd (removeTransaction i ?s))))"
    by (intro absent_run) (simp_all add: ids_remove nextId_remove)
  with len show ?thesis by simp
qed

text \<open>After two adds, id 1 is removed; an add, a remove and an add later it is still gone.\<close>

theorem remove_existing_witness:
  "1 \<in> set (ids (run [Add salary noon, Add rent noon] initial))
   \<and> length (transactions (snd (removeTransaction 1 (run [Add salary noon, Add rent noon] initial)))) + 1
       = length (transactions (run [Add salary noon, Add rent noon] initial))
   \<and> 1 \<notin> set (ids (run [Add salary noon, Remove 2, Add rent noon]
        (snd (removeTransaction 1 (run [Add salary noon, Add rent noon] initial)))))"
proof -
  have h: "1 \<in> set (ids (run [Add salary noon, Add rent noon] initial))"
    by (simp add: initial_def ids_def addTransaction_def Let_def)
  show ?thesis
    using h remove_existing [OF h, of "[Add salary noon, Remove 2, Add rent noon]"] by simp
qed

text \<open>
  C4, as stated, fails: \<^verbatim>\<open>removeTransaction\<close> has no \<^verbatim>\<open>return\<close> statement.  In the store
  with the single id 1, removing 1 empties the store, and what the call hands back is
  not \<^verbatim>\<open>true\<close>.
\<close>

theorem removeTransaction_returns_nothing:
  "fst (removeTransaction 1 (run [Add salary noon] initial)) \<noteq> Boolean True
   \<and> ids (run [Add salary noon] initial) = [1]
   \<and> ids (snd (removeTransaction 1 (run [Add salary noon] initial))) = []"
  by (simp add: removeTransaction_def initial_def ids_def addTransaction_def Let_def)

text \<open>
  C4, amended.  \<^verbatim>\<open>removeTransaction(id)\<close> returns nothing (\<^verbatim>\<open>undefined\<close>), whether or not a
  record was removed; it keeps exactly the records whose id differs from the given one, in
  their order, and leaves the counter alone, so the id is not in the store afterwards;
  removing an id that is not in the store is a no-op, not an error: the store is unchanged.
  \<^verbatim>\<open>handleDelete\<close> does the same, through \<^verbatim>\<open>removeTransaction\<close> in script.js and with its
  own filter in the shorter script.
\<close>

theorem removeTransaction_filters:
  "fst (removeTransaction i s) = Undefined
   \<and> transactions (snd (removeTransaction i s)) = filter (\<lambda>tx. tx_id tx \<noteq> i) (transactions s)
   \<and> nextId (snd (removeTransaction i s)) = nextId s
   \<and> i \<notin> set (ids (snd (removeTransaction i s)))
   \<and> (i \<notin> set (ids s) \<longrightarrow> snd (removeTransaction i s) = s)
   \<and> handleDelete i s = snd (removeTransaction i s)
   \<and> transactions (p0_handleDelete i s0) = filter (\<lambda>tx. tx_id tx \<noteq> i) (transactions s0)
   \<and> nextId (p0_handleDelete i s0) = nextId s0
   \<and> (i \<notin> set (ids s0) \<longrightarrow> p0_handleDelete i s0 = s0)"
proof -
  have a: "i \<notin> set (ids t) \<Longrightarrow> filter (\<lambda>tx. tx_id tx \<noteq> i) (transactions t) = transactions t"
    for t :: "('a entry_scheme) store"
    by (auto simp: ids_def filter_id_conv)
  show ?thesis
    using a [of s] a [of s0]
    by (auto simp: removeTransaction_def handleDelete_def p0_handleDelete_def ids_def)
qed

text \<open>Removing the id 5 from a store that holds only the id 1, and from an empty one.\<close>

theorem removeTransaction_filters_witness:
  "5 \<notin> set (ids (run [Add salary noon] initial))
   \<and> snd (removeTransaction 5 (run [Add salary noon] initial)) = run [Add salary noon] initial
   \<and> fst (removeTransaction 5 (run [Add salary noon] initial)) = Undefined
   \<and> 5 \<notin> set (ids (initial :: entry store))
   \<and> p0_handleDelete 5 initial = (initial :: entry store)"
proof -
  have h: "5 \<notin> set (ids (run [Add salary noon] initial))"
    by (simp add: initial_def ids_def addTransaction_def Let_def)
  have h0: "5 \<notin> set (ids (initial :: entry store))"
    by (simp add: initial_def ids_def)
  show ?thesis
    using h h0 removeTransaction_filters [of 5 "run [Add salary noon] initial" "initial :: entry store"]
    by simp
qed

subsection \<open>Adding\<close>

lemma js_minus: "js ''-'' = [45]" and js_plus: "js ''+'' = [43]" and js_point: "js ''.'' = [46]"
  and js_Infinity: "js ''Infinity'' = [73, 110, 102, 105, 110, 105, 116, 121]"
  by (simp_all add: js_def)

lemma digit_not_space: "isDigit c \<Longrightarrow> \<not> isWhiteSpace c"
  by (auto simp: isDigit_def isWhiteSpace_def)

lemma parseFloat_empty: "parseFloat [] = NaN"
  by (simp add: parseFloat_def unsignedLiteral_def trimStart_def js_minus js_plus js_Infinity js_point)

text \<open>A string without a digit and without the letter I has no numeric prefix.\<close>

lemma unsignedLiteral_no_digit:
  assumes "\<forall>c\<in>set u. \<not> isDigit c \<and> c \<noteq> 73"
  shows "unsignedLiteral negative u = NaN"
proof -
  have nodigit: "takeWhile isDigit xs = []" if "set xs \<subseteq> set u" for xs
    using assms that by (cases xs) auto
  have "take 8 u \<noteq> js ''Infinity''"
  proof
    assume "take 8 u = js ''Infinity''"
    then have "73 \<in> set (take 8 u)" by (simp add: js_Infinity)
    then have "73 \<in> set u" by (rule in_set_takeD)
    then show False using assms by auto
  qed
  moreover have "takeWhile isDigit u = []"
    by (rule nodigit) simp
  moreover have "takeWhile isDigit (drop 1 (dropWhile isDigit u)) = []"
  proof (rule nodigit)
    show "set (drop 1 (dropWhile isDigit u)) \<subseteq> set u"
      using set_drop_subset [of 1 "dropWhile isDigit u"] set_dropWhileD [of _ isDigit u]
      by blast
  qed
  ultimately show ?thesis
    by (simp add: unsignedLiteral_def Let_def)
qed

lemma parseFloat_no_digit:
  assumes "\<forall>c\<in>set str. \<not> isDigit c \<and> c \<noteq> 73"
  shows "parseFloat str = NaN"
proof -
  have t: "set (trimStart str) \<subseteq> set str"
    unfolding trimStart_def using set_dropWhileD [of _ isWhiteSpace str] by blast
  have "\<forall>c\<in>set (trimStart str). \<not> isDigit c \<and> c \<noteq> 73"
    using assms t by blast
  moreover have "\<forall>c\<in>set (drop 1 (trimStart str)). \<not> isDigit c \<and> c \<noteq> 73"
    using assms t set_drop_subset [of 1 "trimStart str"] by blast
  ultimately show ?thesis
    by (simp add: parseFloat_def Let_def unsignedLiteral_no_digit)
qed

text \<open>Digits followed by something that continues no number: the digits are the value.\<close>

lemma unsignedLiteral_digit_prefix:
  assumes "ds \<noteq> []" and "\<forall>c\<in>set ds. isDigit c"
    and "case rest of [] \<Rightarrow> True | c # _ \<Rightarrow> \<not> isDigit c \<and> c \<noteq> 46 \<and> c \<noteq> 101 \<and> c \<noteq> 69"
  shows "unsignedLiteral False (ds @ rest) = roundToDouble (of_int (digitsValue ds))"
proof -
  obtain d ds' where ds: "ds = d # ds'" using assms(1) by (cases ds) auto
  have d: "isDigit d" using assms(2) ds by simp
  have inf: "take 8 (ds @ rest) \<noteq> js ''Infinity''"
    using d by (auto simp: ds js_Infinity isDigit_def)
  have r: "takeWhile isDigit rest = []" "dropWhile isDigit rest = rest"
    using assms(3) by (cases rest; simp)+
  have tw: "takeWhile isDigit (ds @ rest) = ds"
    using assms(2) r by simp
  have dw: "dropWhile isDigit (ds @ rest) = rest"
    using assms(2) r by simp
  have pt: "take 1 rest \<noteq> js ''.''"
    using assms(3) by (cases rest) (simp_all add: js_point)
  have ex: "exponentPart rest = 0"
    using assms(3) by (cases rest) simp_all
  show ?thesis
    unfolding unsignedLiteral_def Let_def tw dw
    using assms(1) inf pt ex by (simp add: pow10_def)
qed

lemma parseFloat_digit_prefix:
  assumes "ds \<noteq> []" and "\<forall>c\<in>set ds. isDigit c"
    and "case rest of [] \<Rightarrow> True | c # _ \<Rightarrow> \<not> isDigit c \<and> c \<noteq> 46 \<and> c \<noteq> 101 \<and> c \<noteq> 69"
  shows "parseFloat (ds @ rest) = roundToDouble (of_int (digitsValue ds))"
proof -
  obtain d ds' where ds: "ds = d # ds'" using assms(1) by (cases ds) auto
  have d: "isDigit d" using assms(2) ds by simp
  have t: "trimStart (ds @ rest) = ds @ rest"
    using d by (simp add: trimStart_def ds digit_not_space)
  have sign: "take 1 (ds @ rest) \<noteq> js ''-''" "take 1 (ds @ rest) \<noteq> js ''+''"
    using d by (auto simp: ds js_minus js_plus isDigit_def)
  show ?thesis
    unfolding parseFloat_def Let_def t
    using sign unsignedLiteral_digit_prefix [OF assms] by simp
qed

text \<open>
  C10.  \<^verbatim>\<open>addTransaction\<close> itself validates nothing: for every input object it appends
  exactly one record to the list, and the amount of that record is \<^verbatim>\<open>parseFloat\<close> of the
  given amount string.  So a string that starts with digits and goes on with something
  that continues no number stores the value of the digits, and a string without a digit
  (and without the letter I of \<^verbatim>\<open>Infinity\<close>) stores not-a-number.
\<close>

theorem addTransaction_unvalidated:
  "transactions (snd (addTransaction data now s)) = transactions s @ [fst (addTransaction data now s)]
   \<and> amount (fst (addTransaction data now s)) = parseFloat (data_amount data)
   \<and> (ds \<noteq> [] \<and> (\<forall>c\<in>set ds. isDigit c)
        \<and> (case rest of [] \<Rightarrow> True | c # _ \<Rightarrow> \<not> isDigit c \<and> c \<noteq> 46 \<and> c \<noteq> 101 \<and> c \<noteq> 69)
        \<and> data_amount data = ds @ rest
      \<longrightarrow> amount (fst (addTransaction data now s)) = roundToDouble (of_int (digitsValue ds)))
   \<and> ((\<forall>c\<in>set (data_amount data). \<not> isDigit c \<and> c \<noteq> 73)
      \<longrightarrow> amount (fst (addTransaction data now s)) = NaN)"
  using parseFloat_digit_prefix [of ds rest] parseFloat_no_digit [of "data_amount data"]
  by (simp add: addTransaction_def Let_def)

text \<open>
  The inputs with the amounts \<^verbatim>\<open>"12abc"\<close> and \<^verbatim>\<open>"abc"\<close> do not pass \<^verbatim>\<open>validateInputs\<close>;
  handed to \<^verbatim>\<open>addTransaction\<close> they store 12 and not-a-number.
\<close>

theorem addTransaction_unvalidated_witness:
  "\<not> fst (validateInputs input12abc)
   \<and> amount (fst (addTransaction input12abc noon initial)) = Fin 12
   \<and> transactions (snd (addTransaction input12abc noon initial)) = [fst (addTransaction input12abc noon initial)]
   \<and> \<not> fst (validateInputs inputAbc)
   \<and> amount (fst (addTransaction inputAbc noon initial)) = NaN"
proof -
  have v: "\<not> fst (validateInputs input12abc)" "\<not> fst (validateInputs inputAbc)"
    by code_simp+
  have r: "roundToDouble (of_int (digitsValue (js ''12''))) = Fin 12"
    by code_simp
  have a: "data_amount input12abc = js ''12'' @ js ''abc''"
    by (simp add: input12abc_def js_def)
  have h1: "js ''12'' \<noteq> [] \<and> (\<forall>c\<in>set (js ''12''). isDigit c)
        \<and> (case js ''abc'' of [] \<Rightarrow> True | c # _ \<Rightarrow> \<not> isDigit c \<and> c \<noteq> 46 \<and> c \<noteq> 101 \<and> c \<noteq> 69)"
    by (simp add: js_def isDigit_def)
  have h2: "\<forall>c\<in>set (data_amount inputAbc). \<not> isDigit c \<and> c \<noteq> 73"
    by (simp add: inputAbc_def js_def isDigit_def)
  note T = addTransaction_unvalidated [of input12abc noon initial "js ''12''" "js ''abc''"]
  note U = addTransaction_unvalidated [of inputAbc noon initial "js ''12''" "js ''abc''"]
  have "amount (fst (addTransaction input12abc noon initial)) = roundToDouble (of_int (digitsValue (js ''12'')))"
    using T h1 a by blast
  then have c1: "amount (fst (addTransaction input12abc noon initial)) = Fin 12"
    using r by simp
  have "transactions (snd (addTransaction input12abc noon initial))
          = transactions (initial :: transaction store) @ [fst (addTransaction input12abc noon initial)]"
    using T by blast
  then have c2: "transactions (snd (addTransaction input12abc noon initial))
          = [fst (addTransaction input12abc noon initial)]"
    by (simp add: initial_def)
  have c3: "amount (fst (addTransaction inputAbc noon initial)) = NaN"
    using U h2 by blast
  show ?thesis
    using v c1 c2 c3 by blast
qed

subsection \<open>Rendering\<close>

lemma rowsOf_map_Row: "rowsOf (map (\<lambda>x. Row (f x)) xs) = map f xs"
  by (induction xs) simp_all

lemma serials_enumerate: "map (\<lambda>p. Suc (fst p)) (enumerate 0 xs) = [1..<Suc (length xs)]"
  by (rule nth_equalityI) (simp_all add: nth_enumerate_eq del: upt_Suc)

text \<open>
  C6.  For every content of the store, the rows of the rendered table show the records in
  the exact reverse of the insertion order (newest first), and their serial numbers are
  1 to N from the top, whatever the ids of the records are (giving the records other ids
  changes no serial): the serials are computed anew from the positions at every rendering.
  This holds for \<^verbatim>\<open>renderTable\<close> of both scripts.
\<close>

theorem renderTable_newest_first:
  "map shown (rowsOf (renderTable txs)) = rev txs
   \<and> map serial (rowsOf (renderTable txs)) = [1..<Suc (length txs)]
   \<and> map serial (rowsOf (renderTable (map (\<lambda>tx. tx\<lparr>tx_id := g tx\<rparr>) txs)))
       = map serial (rowsOf (renderTable txs))
   \<and> map shown (rowsOf (p0_renderTable txs0)) = rev txs0
   \<and> map serial (rowsOf (p0_renderTable txs0)) = [1..<Suc (length txs0)]"
proof -
  have r: "renderTable txs =
      (if txs = [] then [EmptyRow]
       else map (\<lambda>p. Row (buildRow (snd p) (fst p + 1))) (enumerate 0 (rev txs)))"
    by (simp add: renderTable_def Let_def case_prod_beta)
  have p: "p0_renderTable txs0 =
      (if txs0 = [] then [EmptyRow]
       else map (\<lambda>p. Row (p0_buildRow (snd p) (fst p + 1))) (enumerate 0 (rev txs0)))"
    by (simp add: p0_renderTable_def case_prod_beta)
  have a: "map shown (rowsOf (renderTable txs)) = rev txs"
    by (simp add: r rowsOf_map_Row comp_def buildRow_def)
  have b: "map serial (rowsOf (renderTable ts)) = [1..<Suc (length ts)]" for ts
  proof -
    have "renderTable ts =
      (if ts = [] then [EmptyRow]
       else map (\<lambda>p. Row (buildRow (snd p) (fst p + 1))) (enumerate 0 (rev ts)))"
      by (simp add: renderTable_def Let_def case_prod_beta)
    then show ?thesis
      using serials_enumerate [of "rev ts"]
      by (simp add: rowsOf_map_Row comp_def buildRow_def del: upt_Suc)
  qed
  have b': "map serial (rowsOf (renderTable (map (\<lambda>tx. tx\<lparr>tx_id := g tx\<rparr>) txs)))
       = map serial (rowsOf (renderTable txs))"
    by (simp only: b length_map)
  have c: "map shown (rowsOf (p0_renderTable txs0)) = rev txs0"
    by (simp add: p rowsOf_map_Row comp_def p0_buildRow_def)
  have d: "map serial (rowsOf (p0_renderTable txs0)) = [1..<Suc (length txs0)]"
    using serials_enumerate [of "rev txs0"]
    by (simp add: p rowsOf_map_Row comp_def p0_buildRow_def del: upt_Suc)
  from a b [of txs] b' c d show ?thesis by blast
qed

subsection \<open>Validation and submission\<close>

lemma validateInputs_valid_iff: "fst (validateInputs d) \<longleftrightarrow> snd (validateInputs d) = []"
  by (simp add: validateInputs_def Let_def)

lemma p0_validateInputs_valid_iff:
  "fst (p0_validateInputs descr amt dat) \<longleftrightarrow> snd (p0_validateInputs descr amt dat) = []"
  by (simp add: p0_validateInputs_def Let_def)

text \<open>
  Each script leaves early, with the store as it was, when its own \<^verbatim>\<open>validateInputs\<close> marks
  a field.
\<close>

lemma invalid_submit_aborts:
  "(snd (validateInputs (readFormValues f)) \<noteq> [] \<longrightarrow> handleFormSubmit f now s = s)
   \<and> (snd (p0_validateInputs (trim (txDescription f)) (parseFloat (txAmount f)) (txDate f)) \<noteq> []
        \<longrightarrow> p0_handleFormSubmit f s0 = s0)"
  by (simp add: handleFormSubmit_def p0_handleFormSubmit_def Let_def
        validateInputs_valid_iff p0_validateInputs_valid_iff)

text \<open>
  The rules of script.js, field by field, on the values \<^verbatim>\<open>readFormValues\<close> hands over: the
  description is marked exactly when it is empty after trimming or longer than 100 code
  units after trimming; the amount exactly when \<^verbatim>\<open>parseFloat\<close> gives not-a-number or a
  value that is at most 0; the date exactly when it is empty; and the result is valid
  exactly when nothing is marked.
\<close>

lemma validateInputs_rules:
  "(DescriptionField \<in> set (snd (validateInputs (readFormValues f)))
      \<longleftrightarrow> trim (txDescription f) = [] \<or> 100 < length (trim (txDescription f)))
   \<and> (AmountField \<in> set (snd (validateInputs (readFormValues f)))
      \<longleftrightarrow> isNaN (parseFloat (txAmount f)) \<or> parseFloat (txAmount f) \<le> 0)
   \<and> (DateField \<in> set (snd (validateInputs (readFormValues f))) \<longleftrightarrow> txDate f = [])
   \<and> (fst (validateInputs (readFormValues f)) \<longleftrightarrow> snd (validateInputs (readFormValues f)) = [])"
  using parseFloat_empty
  by (auto simp: validateInputs_def readFormValues_def Let_def maxDescLen_def isNaN_def)

text \<open>
  In script.js a form is rejected exactly when it is invalid by the rules of the
  specification, and the submission of an invalid form leaves the whole store, list and
  counter, as it was.
\<close>

lemma validateInputs_failsRules: "fst (validateInputs (readFormValues f)) \<longleftrightarrow> \<not> failsRules f"
  using validateInputs_rules [of f]
  by (cases "snd (validateInputs (readFormValues f))"; cases "hd (snd (validateInputs (readFormValues f)))")
     (auto simp: failsRules_def)

lemma handleFormSubmit_aborts: "failsRules f \<Longrightarrow> handleFormSubmit f now s = s"
  by (simp add: handleFormSubmit_def Let_def validateInputs_failsRules)

text \<open>
  The shorter script does the same for every rule but the one it lacks, the length of the
  description.
\<close>

lemma p0_handleFormSubmit_aborts:
  "trim (txDescription f) = [] \<or> isNaN (parseFloat (txAmount f)) \<or> parseFloat (txAmount f) \<le> 0
     \<or> txDate f = [] \<Longrightarrow> p0_handleFormSubmit f s0 = s0"
  by (auto simp: p0_handleFormSubmit_def p0_validateInputs_def Let_def)

text \<open>
  C5 holds of \<^verbatim>\<open>handleFormSubmit\<close> in script.js (lemma \<open>handleFormSubmit_aborts\<close>) and fails
  in the shorter script, by the defect of C3: the form with a description of 101 letters is
  invalid, its description being longer than 100 characters, yet submitting it to the
  empty store of the shorter script adds a record with the id 1 and moves the counter from
  1 to 2, where script.js leaves the store as it was.
\<close>

theorem p0_handleFormSubmit_adds_invalid:
  "failsRules longForm
   \<and> ids (initial :: entry store) = [] \<and> nextId (initial :: entry store) = 1
   \<and> ids (p0_handleFormSubmit longForm initial) = [1]
   \<and> nextId (p0_handleFormSubmit longForm initial) = 2
   \<and> handleFormSubmit longForm noon initial = initial"
proof -
  have a: "failsRules longForm"
    by code_simp
  have b: "ids (initial :: entry store) = [] \<and> nextId (initial :: entry store) = 1"
    by (simp add: initial_def ids_def)
  have c: "ids (p0_handleFormSubmit longForm initial) = [1]"
    by code_simp
  have d: "nextId (p0_handleFormSubmit longForm initial) = 2"
    by code_simp
  have e: "handleFormSubmit longForm noon initial = initial"
    using a by (rule handleFormSubmit_aborts)
  from a b c d e show ?thesis by blast
qed

text \<open>A form that passes is added as it was read, in both scripts.\<close>

lemma handleFormSubmit_valid:
  "fst (validateInputs (readFormValues f)) \<Longrightarrow>
     handleFormSubmit f now s = snd (addTransaction (readFormValues f) now s)"
  by (simp add: handleFormSubmit_def Let_def)

lemma p0_handleFormSubmit_valid:
  "fst (p0_validateInputs (trim (txDescription f)) (parseFloat (txAmount f)) (txDate f)) \<Longrightarrow>
     transactions (p0_handleFormSubmit f s0) = transactions s0 @
       [\<lparr>tx_id = nextId s0, description = trim (txDescription f), amount = parseFloat (txAmount f),
         type = txType f, date = txDate f\<rparr>]
     \<and> nextId (p0_handleFormSubmit f s0) = nextId s0 + 1"
  by (simp add: p0_handleFormSubmit_def Let_def)

text \<open>A validated amount is a number greater than 0.\<close>

lemma valid_amount_positive:
  "fst (validateInputs (readFormValues f)) \<Longrightarrow>
     0 < amount (fst (addTransaction (readFormValues f) now s))"
proof -
  assume "fst (validateInputs (readFormValues f))"
  then have "\<not> isNaN (parseFloat (txAmount f))" "\<not> parseFloat (txAmount f) \<le> 0"
    using validateInputs_rules [of f] by auto
  then show ?thesis
    by (cases "parseFloat (txAmount f)")
       (simp_all add: addTransaction_def readFormValues_def Let_def isNaN_def zero_number_def)
qed

text \<open>
  The examples of the specification, in script.js: an empty description and one of 101
  letters fail, one of 100 letters passes; the amounts 0 and -5 fail, 0.01 passes; an empty
  date fails.
\<close>

lemma validateInputs_examples:
  "snd (validateInputs (readFormValues (formWith [] (js ''5'') (js ''2026-01-01'')))) = [DescriptionField]"
  "snd (validateInputs (readFormValues (formWith (replicate 101 97) (js ''5'') (js ''2026-01-01'')))) = [DescriptionField]"
  "snd (validateInputs (readFormValues (formWith (replicate 100 97) (js ''5'') (js ''2026-01-01'')))) = []"
  "snd (validateInputs (readFormValues (formWith (js ''Rent'') (js ''0'') (js ''2026-01-01'')))) = [AmountField]"
  "snd (validateInputs (readFormValues (formWith (js ''Rent'') (js ''-5'') (js ''2026-01-01'')))) = [AmountField]"
  "snd (validateInputs (readFormValues (formWith (js ''Rent'') (js ''0.01'') (js ''2026-01-01'')))) = []"
  "snd (validateInputs (readFormValues (formWith (js ''Rent'') (js ''5'') []))) = [DateField]"
  by code_simp+

text \<open>
  C3 holds of \<^verbatim>\<open>validateInputs\<close> in script.js (the two lemmas above) and fails in the
  shorter script, whose \<^verbatim>\<open>validateInputs\<close> has no length rule: the form with a
  description of 101 letters, the amount 5 and a date passes it and is stored, while
  script.js marks its description and stores nothing.
\<close>

theorem p0_validateInputs_long_description:
  "length (txDescription longForm) = 101
   \<and> p0_validateInputs (trim (txDescription longForm)) (parseFloat (txAmount longForm)) (txDate longForm)
       = (True, [])
   \<and> map description (transactions (p0_handleFormSubmit longForm initial)) = [replicate 101 97]
   \<and> validateInputs (readFormValues longForm) = (False, [DescriptionField])
   \<and> transactions (handleFormSubmit longForm noon initial) = []"
  by code_simp

subsection \<open>Currency text\<close>

text \<open>
  The examples of the specification, in \<^verbatim>\<open>formatCurrency\<close> of script.js, and two values
  that show the rounding of the number formatter.
\<close>

lemma formatCurrency_examples:
  "formatCurrency (Fin (2469 / 2)) = js ''$1,234.50''"
  "formatCurrency (Fin (- 250)) = js ''-$250.00''"
  "formatCurrency (Fin 0) = js ''$0.00''"
  "formatCurrency 0 = js ''$0.00''"
  "parseFloat (js ''1234.5'') = Fin (2469 / 2)"
  "formatCurrency (parseFloat (js ''1.005'')) = js ''$1.01''"
  "formatCurrency (Fin (2 ^ 60)) = js ''$1,152,921,504,606,847,000.00''"
  by code_simp+

text \<open>
  \<^verbatim>\<open>toFixed(2)\<close>, which the rows of the shorter script use: the exact value, no grouping,
  and the exponent notation from \<open>10 ^ 21\<close> on.
\<close>

lemma toFixed2_examples:
  "toFixed2 (parseFloat (js ''1.005'')) = js ''1.00''"
  "toFixed2 (Fin (2 ^ 60)) = js ''1152921504606846976.00''"
  "toFixed2 (parseFloat (js ''1.5e21'')) = js ''1.5e+21''"
  "toFixed2 (Fin (- 1 / 1000)) = js ''-0.00''"
  by code_simp+

lemma Fin_less_zero: "Fin q < 0 \<longleftrightarrow> q < 0"
  by (simp add: zero_number_def)

text \<open>
  A finite value: a minus sign exactly when it is negative, the dollar sign, the whole
  part of the absolute value (its shortest decimal, rounded to hundredths) in groups of
  three digits, a point and two digits.
\<close>

lemma formatCurrency_finite:
  "formatCurrency (Fin q) =
     (if q < 0 then js ''-'' else []) @ js ''$''
       @ groupThousands (decimalDigits (hundredths (shortestDecimal \<bar>q\<bar>) div 100))
       @ js ''.'' @ [48 + hundredths (shortestDecimal \<bar>q\<bar>) mod 100 div 10,
                     48 + hundredths (shortestDecimal \<bar>q\<bar>) mod 10]"
  by (simp add: formatCurrency_def Let_def twoFractionDigits_def Fin_less_zero)

text \<open>
  C9 holds of the texts script.js shows, which all come from \<^verbatim>\<open>formatCurrency\<close>, and fails
  in the shorter script: its \<^verbatim>\<open>buildRow\<close> writes the amount cell as a dollar sign and
  \<^verbatim>\<open>toFixed(2)\<close>, without thousands separators.  Submitting the amount 1234.5 there gives a
  row that shows \<^verbatim>\<open>$1234.50\<close>, where script.js, and \<^verbatim>\<open>formatCurrency\<close> of the shorter script
  itself, give \<^verbatim>\<open>$1,234.50\<close>.
\<close>

theorem p0_buildRow_amount_ungrouped:
  "map amountCell (rowsOf (p0_renderTable (transactions (p0_handleFormSubmit payForm initial))))
     = [js ''$1234.50'']
   \<and> map amountCell (rowsOf (renderTable (transactions (handleFormSubmit payForm noon initial))))
     = [js ''$1,234.50'']
   \<and> p0_formatCurrency (parseFloat (txAmount payForm)) = js ''$1,234.50''"
  by code_simp

subsection \<open>The end-to-end scenario\<close>

text \<open>
  An income of 1000 and then an expense of 300: the summary is 1000, 300 and 700, the
  cards show them as currency, and the table shows the expense row first.
\<close>

lemma scenario:
  "updateSummary (transactions (run [Add salary noon, Add rent noon] initial))
     = \<lparr>income = Fin 1000, expense = Fin 300, balance = Fin 700\<rparr>"
  "map (\<lambda>r. type (shown r)) (rowsOf (renderTable (transactions (run [Add salary noon, Add rent noon] initial))))
     = [Expense, Income]"
  "cardTexts (updateSummary (transactions (run [Add salary noon, Add rent noon] initial)))
     = (js ''$1,000.00'', js ''$300.00'', js ''$700.00'')"
  by code_simp+

end
